theory Spec2Isabelle
  imports Main
begin

section \<open>vehicle-intel: the lookup handlers of \<^verbatim>\<open>src/index.ts\<close>\<close>

text \<open>
  The agent answers five paid lookups by calling the NHTSA services and reshaping what
  they return. The handlers are embedded as functions of the upstream (what each URL is
  answered with) and of the handler's input. A handler returns the list of URLs it
  requested, in the order of the requests, together with its outcome: the error it raised
  (\<open>Inl\<close>) or the \<^verbatim>\<open>output\<close> object it returned (\<open>Inr\<close>).

  The time stamps \<^verbatim>\<open>fetchedAt\<close> and \<^verbatim>\<open>comparedAt\<close> are left out of the outputs.
\<close>

subsection \<open>Strings\<close>

text \<open>
  A string is a list of characters. The three string functions of the platform that the
  handlers call are written out for ASCII text: \<^verbatim>\<open>toUpperCase\<close> and
  \<^verbatim>\<open>toLowerCase\<close> change the 26 letters and nothing else, and
  \<^verbatim>\<open>encodeURIComponent\<close> keeps the letters, the digits and
  \<^verbatim>\<open>- _ . ! ~ * ' ( )\<close> and writes every other character as \<^verbatim>\<open>%XX\<close>.
\<close>

definition lowerLetters :: string where
  "lowerLetters = ''abcdefghijklmnopqrstuvwxyz''"

definition upperLetters :: string where
  "upperLetters = ''ABCDEFGHIJKLMNOPQRSTUVWXYZ''"

definition toUpperCaseChar :: "char \<Rightarrow> char" where
  "toUpperCaseChar c =
     (case map_of (zip lowerLetters upperLetters) c of Some u \<Rightarrow> u | None \<Rightarrow> c)"

definition toLowerCaseChar :: "char \<Rightarrow> char" where
  "toLowerCaseChar c =
     (case map_of (zip upperLetters lowerLetters) c of Some l \<Rightarrow> l | None \<Rightarrow> c)"

definition toUpperCase :: "string \<Rightarrow> string" where
  "toUpperCase s = map toUpperCaseChar s"

definition toLowerCase :: "string \<Rightarrow> string" where
  "toLowerCase s = map toLowerCaseChar s"

definition uriUnreserved :: string where
  "uriUnreserved =
     lowerLetters @ upperLetters @ ''0123456789'' @ ''-_.!~*'' @ [CHR 0x27] @ ''()''"

definition hexDigit :: "nat \<Rightarrow> char" where
  "hexDigit n = ''0123456789ABCDEF'' ! (n mod 16)"

definition encodeURIChar :: "char \<Rightarrow> string" where
  "encodeURIChar c =
     (if c \<in> set uriUnreserved then [c]
      else [CHR ''%'', hexDigit (of_char c div 16), hexDigit (of_char c)])"

definition encodeURIComponent :: "string \<Rightarrow> string" where
  "encodeURIComponent s = concat (map encodeURIChar s)"

text \<open>
  A number placed in a template literal is written in decimal. The only number a handler
  formats is the model year of the complaints lookup; it is taken to be an integer.
\<close>

fun digitsOf :: "nat \<Rightarrow> string" where
  "digitsOf n =
     (if n < 10 then [''0123456789'' ! n]
      else digitsOf (n div 10) @ [''0123456789'' ! (n mod 10)])"

definition numberToString :: "int \<Rightarrow> string" where
  "numberToString i = (if i < 0 then CHR ''-'' # digitsOf (nat (- i)) else digitsOf (nat i))"

text \<open>
  Values the handlers copy from an upstream row without looking at them.
\<close>

datatype jsvalue = JUndefined | JNull | JBool bool | JNum int | JStr string

text \<open>
  A possibly undefined string inside a template literal: \<^verbatim>\<open>undefined\<close> is written
  as the word.
\<close>

definition template :: "string option \<Rightarrow> string" where
  "template x = (case x of None \<Rightarrow> ''undefined'' | Some s \<Rightarrow> s)"

text \<open>
  Truthiness of a possibly missing string: \<^verbatim>\<open>undefined\<close>, \<^verbatim>\<open>null\<close> and the
  empty string are falsy.
\<close>

definition truthy :: "string option \<Rightarrow> bool" where
  "truthy x = (case x of None \<Rightarrow> False | Some s \<Rightarrow> s \<noteq> [])"

subsection \<open>The upstream\<close>

text \<open>
  \<^verbatim>\<open>fetch(url)\<close> either rejects (no response arrived) or gives a response with a
  status and a body; \<^verbatim>\<open>response.ok\<close> holds for the statuses 200 to 299, and
  \<^verbatim>\<open>response.json()\<close> rejects when the body is not JSON (body \<open>None\<close>).
  The upstream answers a URL the same way throughout one request.
\<close>

datatype 'b response = FetchRejected | Response nat "'b option"

definition ok :: "nat \<Rightarrow> bool" where
  "ok status = (200 \<le> status \<and> status \<le> 299)"

datatype error =
    UpstreamError nat
  | NetworkError
  | JsonSyntaxError
  | TypeError

definition fetchJSON :: "(string \<Rightarrow> 'b response) \<Rightarrow> string \<Rightarrow> error + 'b" where
  "fetchJSON fetch url =
     (case fetch url of
        FetchRejected \<Rightarrow> Inl NetworkError
      | Response status body \<Rightarrow>
          if \<not> ok status then Inl (UpstreamError status)
          else (case body of None \<Rightarrow> Inl JsonSyntaxError | Some data \<Rightarrow> Inr data))"

text \<open>
  The bodies are read at the shape each handler reads them. The decode service answers
  with \<^verbatim>\<open>{ Results: [{ Variable, Value }, ...] }\<close>. The handlers pass
  \<^verbatim>\<open>data.Results\<close> to \<^verbatim>\<open>cleanVinResults\<close> as it comes, so the body of a decode
  response may lack the array (\<^verbatim>\<open>Results\<close> is \<open>None\<close>: missing, \<^verbatim>\<open>null\<close> or
  not iterable) and a row of the array may be \<^verbatim>\<open>null\<close> (the row is \<open>None\<close>);
  the \<^verbatim>\<open>Value\<close> of a row is a string or \<^verbatim>\<open>null\<close> (\<open>None\<close>). The
  \<^verbatim>\<open>Results\<close> of the model catalogue and the \<^verbatim>\<open>results\<close> of the recall and
  complaint services may be missing (\<open>None\<close>): the handlers read them with
  \<^verbatim>\<open>?.\<close> and \<^verbatim>\<open>||\<close>.
\<close>

record raw_attr =
  Variable :: string
  Value :: "string option"

record 'r vpic_body =
  Results :: 'r

record 'r api_body =
  results :: "'r list option"

record recall_row =
  NHTSACampaignNumber :: jsvalue
  Component :: jsvalue
  Summary :: jsvalue
  Consequence :: jsvalue
  Remedy :: jsvalue
  Manufacturer :: jsvalue

record complaint_row =
  odiNumber :: jsvalue
  components :: jsvalue
  summary :: "string option"
  crash :: jsvalue
  fire :: jsvalue
  injuries :: jsvalue
  dateOfIncident :: jsvalue

record model_row =
  Make_Name :: jsvalue
  Model_Name :: jsvalue

record upstream =
  decodevin :: "string \<Rightarrow> raw_attr option list option vpic_body response"
  getModelsForMake :: "string \<Rightarrow> model_row list option vpic_body response"
  recallsByVehicle :: "string \<Rightarrow> recall_row api_body response"
  complaintsByVehicle :: "string \<Rightarrow> complaint_row api_body response"

definition NHTSA_VPIC :: string where
  "NHTSA_VPIC = ''https://vpic.nhtsa.dot.gov/api/vehicles''"

definition NHTSA_RECALLS :: string where
  "NHTSA_RECALLS = ''https://api.nhtsa.gov/recalls/recallsByVehicle''"

definition NHTSA_COMPLAINTS :: string where
  "NHTSA_COMPLAINTS = ''https://api.nhtsa.gov/complaints/complaintsByVehicle''"

subsection \<open>cleanVinResults\<close>

text \<open>
  \<^verbatim>\<open>Record<string, string>\<close> is a map from property names to values: the own
  properties of the object that starts as \<^verbatim>\<open>{}\<close>. The assignment
  \<^verbatim>\<open>cleaned[name] = value\<close> creates or overwrites the property, except for the name
  \<^verbatim>\<open>__proto__\<close>: on an object literal that name is the accessor of the prototype,
  and assigning a string to it changes nothing. The names the handlers read
  (\<^verbatim>\<open>specs['Make']\<close> and the like) are not properties of the prototype, so reading
  them is a lookup in the map.
\<close>

type_synonym specs = "string \<rightharpoonup> string"

definition setProperty :: "specs \<Rightarrow> string \<Rightarrow> string \<Rightarrow> specs" where
  "setProperty obj name v = (if name = ''__proto__'' then obj else obj(name \<mapsto> v))"

text \<open>
  The loop runs over the rows in order and stores the pairs whose value passes the test.
  Reading \<^verbatim>\<open>item.Value\<close> of a \<^verbatim>\<open>null\<close> row raises a TypeError, and so does
  iterating over \<^verbatim>\<open>results\<close> when it is not an array.
\<close>

fun cleanLoop :: "raw_attr option list \<Rightarrow> specs \<Rightarrow> error + specs" where
  "cleanLoop [] cleaned = Inr cleaned"
| "cleanLoop (None # rest) cleaned = Inl TypeError"
| "cleanLoop (Some item # rest) cleaned =
     cleanLoop rest
       (if truthy (Value item) \<and> Value item \<noteq> Some '''' \<and> Value item \<noteq> Some ''Not Applicable''
        then setProperty cleaned (Variable item) (the (Value item))
        else cleaned)"

definition cleanVinResults :: "raw_attr option list option \<Rightarrow> error + specs" where
  "cleanVinResults rs =
     (case rs of None \<Rightarrow> Inl TypeError | Some items \<Rightarrow> cleanLoop items Map.empty)"

subsection \<open>decode-vin\<close>

text \<open>
  What a handler did: the URLs it requested, in order, and the error it raised or the
  output it returned.
\<close>

type_synonym 'a handled = "string list \<times> (error + 'a)"

record vehicle_group =
  vehicle_make :: "string option"
  vehicle_model :: "string option"
  vehicle_year :: "string option"
  vehicle_trim :: "string option"
  vehicle_bodyClass :: "string option"
  vehicle_vehicleType :: "string option"
  vehicle_doors :: "string option"

record engine_group =
  engine_displacement :: "string option"
  engine_cylinders :: "string option"
  engine_fuelType :: "string option"
  engine_horsepower :: "string option"

record manufacturer_group =
  manufacturer_name :: "string option"
  manufacturer_plantCity :: "string option"
  manufacturer_plantCountry :: "string option"

record safety_group =
  safety_airbags :: "string option"
  safety_abs :: "string option"

record decode_output =
  dv_vin :: string
  dv_isValid :: bool
  dv_errorMessage :: "string option"
  dv_vehicle :: vehicle_group
  dv_engine :: engine_group
  dv_manufacturer :: manufacturer_group
  dv_safety :: safety_group

definition decode_vin :: "upstream \<Rightarrow> string \<Rightarrow> decode_output handled" where
  "decode_vin up input_vin =
     (let vin = toUpperCase input_vin;
          url = NHTSA_VPIC @ ''/decodevin/'' @ vin @ ''?format=json''
      in case fetchJSON (decodevin up) url of
           Inl e \<Rightarrow> ([url], Inl e)
         | Inr data \<Rightarrow>
             (case cleanVinResults (Results data) of
                Inl e \<Rightarrow> ([url], Inl e)
              | Inr specs \<Rightarrow> ([url], Inr \<lparr>
                   dv_vin = vin,
                   dv_isValid = (specs ''Error Code'' = Some ''0''),
                   dv_errorMessage = specs ''Error Text'',
                   dv_vehicle = \<lparr>
                     vehicle_make = specs ''Make'',
                     vehicle_model = specs ''Model'',
                     vehicle_year = specs ''Model Year'',
                     vehicle_trim = specs ''Trim'',
                     vehicle_bodyClass = specs ''Body Class'',
                     vehicle_vehicleType = specs ''Vehicle Type'',
                     vehicle_doors = specs ''Doors'' \<rparr>,
                   dv_engine = \<lparr>
                     engine_displacement = specs ''Displacement (L)'',
                     engine_cylinders = specs ''Engine Number of Cylinders'',
                     engine_fuelType = specs ''Fuel Type - Primary'',
                     engine_horsepower = specs ''Engine Brake (hp) From'' \<rparr>,
                   dv_manufacturer = \<lparr>
                     manufacturer_name = specs ''Manufacturer Name'',
                     manufacturer_plantCity = specs ''Plant City'',
                     manufacturer_plantCountry = specs ''Plant Country'' \<rparr>,
                   dv_safety = \<lparr>
                     safety_airbags = specs ''Air Bag Loc Front'',
                     safety_abs = specs ''Brake System Type'' \<rparr> \<rparr>)))"

subsection \<open>recalls-by-vin\<close>

record recall_record =
  rc_campaignNumber :: jsvalue
  rc_component :: jsvalue
  rc_summary :: jsvalue
  rc_consequence :: jsvalue
  rc_remedy :: jsvalue
  rc_manufacturer :: jsvalue

definition recallRecord :: "recall_row \<Rightarrow> recall_record" where
  "recallRecord r = \<lparr>
     rc_campaignNumber = NHTSACampaignNumber r,
     rc_component = Component r,
     rc_summary = Summary r,
     rc_consequence = Consequence r,
     rc_remedy = Remedy r,
     rc_manufacturer = Manufacturer r \<rparr>"

text \<open>
  The two outputs of the handler share one record: \<open>rv_error\<close> is \<open>None\<close> where
  the output has no \<^verbatim>\<open>error\<close>, and \<open>rv_vehicle\<close> is \<open>None\<close> where
  \<^verbatim>\<open>vehicle\<close> is \<^verbatim>\<open>null\<close>.
\<close>

record recalls_output =
  rv_vin :: string
  rv_error :: "string option"
  rv_vehicle :: "string option"
  rv_recallCount :: nat
  rv_recalls :: "recall_record list"

definition recallsFound :: "string \<Rightarrow> specs \<Rightarrow> recall_row list \<Rightarrow> recalls_output" where
  "recallsFound vin specs recalls = \<lparr>
     rv_vin = vin,
     rv_error = None,
     rv_vehicle = Some (template (specs ''Model Year'') @ '' '' @ template (specs ''Make'')
                         @ '' '' @ template (specs ''Model'')),
     rv_recallCount = length recalls,
     rv_recalls = map recallRecord (take 20 recalls) \<rparr>"

definition recalls_by_vin :: "upstream \<Rightarrow> string \<Rightarrow> recalls_output handled" where
  "recalls_by_vin up input_vin =
     (let vin = toUpperCase input_vin;
          url = NHTSA_VPIC @ ''/decodevin/'' @ vin @ ''?format=json''
      in case fetchJSON (decodevin up) url of
           Inl e \<Rightarrow> ([url], Inl e)
         | Inr decoded \<Rightarrow>
             (case cleanVinResults (Results decoded) of
                Inl e \<Rightarrow> ([url], Inl e)
              | Inr specs \<Rightarrow>
                 if \<not> truthy (specs ''Make'') \<or> \<not> truthy (specs ''Model'')
                    \<or> \<not> truthy (specs ''Model Year'')
                 then ([url], Inr \<lparr>
                        rv_vin = vin,
                        rv_error = Some ''Could not decode VIN to get vehicle details'',
                        rv_vehicle = None,
                        rv_recallCount = 0,
                        rv_recalls = [] \<rparr>)
                 else
                   (let make = toLowerCase (the (specs ''Make''));
                        model = toLowerCase (the (specs ''Model''));
                        year = the (specs ''Model Year'');
                        recallUrl = ''https://api.nhtsa.gov/recalls/recallsByVehicle?make=''
                          @ encodeURIComponent make @ ''&model='' @ encodeURIComponent model
                          @ ''&modelYear='' @ year
                    in case recallsByVehicle up recallUrl of
                         FetchRejected \<Rightarrow> ([url, recallUrl], Inl NetworkError)
                       | Response status body \<Rightarrow>
                           if ok status
                           then (case body of
                                   None \<Rightarrow> ([url, recallUrl], Inl JsonSyntaxError)
                                 | Some recallData \<Rightarrow>
                                     ([url, recallUrl],
                                      Inr (recallsFound vin specs
                                        (case results recallData of
                                           None \<Rightarrow> [] | Some rs \<Rightarrow> rs))))
                           else ([url, recallUrl], Inr (recallsFound vin specs [])))))"

subsection \<open>models\<close>

record models_output =
  mo_make :: string
  mo_modelCount :: nat
  mo_models :: "jsvalue list"

definition models_for_make :: "upstream \<Rightarrow> string \<Rightarrow> models_output handled" where
  "models_for_make up makeName =
     (let url = NHTSA_VPIC @ ''/GetModelsForMake/'' @ encodeURIComponent makeName @ ''?format=json''
      in case fetchJSON (getModelsForMake up) url of
           Inl e \<Rightarrow> ([url], Inl e)
         | Inr data \<Rightarrow>
             (let models = (case Results data of
                              None \<Rightarrow> []
                            | Some rs \<Rightarrow> map (\<lambda>r. (Make_Name r, Model_Name r)) rs)
              in ([url], Inr \<lparr>
                   mo_make = makeName,
                   mo_modelCount = length models,
                   mo_models = map snd models \<rparr>)))"

subsection \<open>complaints\<close>

record complaint_record =
  cp_id :: jsvalue
  cp_component :: jsvalue
  cp_summary :: "string option"
  cp_crash :: jsvalue
  cp_fire :: jsvalue
  cp_injuries :: jsvalue
  cp_dateReceived :: jsvalue

definition complaintRecord :: "complaint_row \<Rightarrow> complaint_record" where
  "complaintRecord c = \<lparr>
     cp_id = odiNumber c,
     cp_component = components c,
     cp_summary = map_option (take 500) (summary c),
     cp_crash = crash c,
     cp_fire = fire c,
     cp_injuries = injuries c,
     cp_dateReceived = dateOfIncident c \<rparr>"

record complaints_output =
  co_vehicle :: string
  co_complaintCount :: nat
  co_complaints :: "complaint_record list"

definition complaints_handler ::
  "upstream \<Rightarrow> string \<Rightarrow> string \<Rightarrow> int \<Rightarrow> complaints_output handled" where
  "complaints_handler up makeName modelName year =
     (let url = NHTSA_COMPLAINTS @ ''?make='' @ encodeURIComponent makeName
                  @ ''&model='' @ encodeURIComponent modelName
                  @ ''&modelYear='' @ numberToString year
      in case fetchJSON (complaintsByVehicle up) url of
           Inl e \<Rightarrow> ([url], Inl e)
         | Inr data \<Rightarrow>
             (let complaints = (case results data of None \<Rightarrow> [] | Some cs \<Rightarrow> cs)
              in ([url], Inr \<lparr>
                   co_vehicle = numberToString year @ '' '' @ makeName @ '' '' @ modelName,
                   co_complaintCount = length complaints,
                   co_complaints = map complaintRecord (take 20 complaints) \<rparr>)))"

subsection \<open>compare\<close>

record comparison_row =
  cr_vin :: string
  cr_year :: "string option"
  cr_make :: "string option"
  cr_model :: "string option"
  cr_trim :: "string option"
  cr_bodyClass :: "string option"
  cr_engine :: string
  cr_fuelType :: "string option"
  cr_manufacturer :: "string option"
  cr_plantCountry :: "string option"
  cr_recallCount :: nat

text \<open>
  The pipeline of one subject (the function mapped over \<^verbatim>\<open>ctx.input.vins\<close>): the
  decode, then the recall count inside \<^verbatim>\<open>try { } catch {}\<close>.
\<close>

definition compareSubject :: "upstream \<Rightarrow> string \<Rightarrow> comparison_row handled" where
  "compareSubject up vin =
     (let v = toUpperCase vin;
          url = NHTSA_VPIC @ ''/decodevin/'' @ v @ ''?format=json''
      in case fetchJSON (decodevin up) url of
           Inl e \<Rightarrow> ([url], Inl e)
         | Inr decoded \<Rightarrow>
             (case cleanVinResults (Results decoded) of
                Inl e \<Rightarrow> ([url], Inl e)
              | Inr specs \<Rightarrow>
             (let recallUrl = NHTSA_RECALLS @ ''?vin='' @ v;
                  recallCount =
                    (case fetchJSON (recallsByVehicle up) recallUrl of
                       Inl e \<Rightarrow> 0
                     | Inr recalls \<Rightarrow>
                         (case results recalls of None \<Rightarrow> 0 | Some rs \<Rightarrow> length rs))
              in ([url, recallUrl], Inr \<lparr>
                   cr_vin = v,
                   cr_year = specs ''Model Year'',
                   cr_make = specs ''Make'',
                   cr_model = specs ''Model'',
                   cr_trim = specs ''Trim'',
                   cr_bodyClass = specs ''Body Class'',
                   cr_engine = template (specs ''Displacement (L)'') @ ''L ''
                     @ template (specs ''Engine Number of Cylinders'') @ ''-cyl'',
                   cr_fuelType = specs ''Fuel Type - Primary'',
                   cr_manufacturer = specs ''Manufacturer Name'',
                   cr_plantCountry = specs ''Plant Country'',
                   cr_recallCount = recallCount \<rparr>))))"

text \<open>
  \<^verbatim>\<open>Promise.all\<close> fulfils with the values in the order of the promises when every
  promise fulfils, and rejects when one rejects. When several reject, the error of the
  first one in the list is taken here.
\<close>

fun promiseAll :: "(error + 'a) list \<Rightarrow> error + 'a list" where
  "promiseAll [] = Inr []"
| "promiseAll (Inl e # rest) = Inl e"
| "promiseAll (Inr x # rest) =
     (case promiseAll rest of Inl e \<Rightarrow> Inl e | Inr xs \<Rightarrow> Inr (x # xs))"

record compare_output =
  comparison :: "comparison_row list"

text \<open>
  The pipelines run concurrently, so the requests of the handler are kept per subject:
  the i-th list holds the URLs that the pipeline of the i-th input requested.
\<close>

definition compare :: "upstream \<Rightarrow> string list \<Rightarrow> string list list \<times> (error + compare_output)" where
  "compare up vins =
     (let subjects = map (compareSubject up) vins
      in (map fst subjects,
          case promiseAll (map snd subjects) of
            Inl e \<Rightarrow> Inl e
          | Inr rows \<Rightarrow> Inr \<lparr> comparison = rows \<rparr>))"

subsection \<open>URLs and sample data\<close>

abbreviation decodeUrl :: "string \<Rightarrow> string" where
  "decodeUrl v \<equiv> NHTSA_VPIC @ ''/decodevin/'' @ v @ ''?format=json''"

abbreviation recallUrlByIdentity :: "string \<Rightarrow> string \<Rightarrow> string \<Rightarrow> string" where
  "recallUrlByIdentity mk md yr \<equiv>
     ''https://api.nhtsa.gov/recalls/recallsByVehicle?make='' @ encodeURIComponent mk
       @ ''&model='' @ encodeURIComponent md @ ''&modelYear='' @ yr"

abbreviation recallUrlByVin :: "string \<Rightarrow> string" where
  "recallUrlByVin v \<equiv> NHTSA_RECALLS @ ''?vin='' @ v"


definition accordAttrs :: "raw_attr list" where
  "accordAttrs =
     [\<lparr>Variable = ''Error Code'', Value = Some ''0''\<rparr>,
      \<lparr>Variable = ''Error Text'', Value = Some ''0 - VIN decoded clean''\<rparr>,
      \<lparr>Variable = ''Make'', Value = Some ''HONDA''\<rparr>,
      \<lparr>Variable = ''Model'', Value = Some ''ACCORD''\<rparr>,
      \<lparr>Variable = ''Model Year'', Value = Some ''2003''\<rparr>,
      \<lparr>Variable = ''Trim'', Value = Some ''''\<rparr>,
      \<lparr>Variable = ''Doors'', Value = Some ''Not Applicable''\<rparr>,
      \<lparr>Variable = ''Series'', Value = None\<rparr>]"

definition partialAttrs :: "raw_attr list" where
  "partialAttrs =
     [\<lparr>Variable = ''Error Code'', Value = Some ''8''\<rparr>,
      \<lparr>Variable = ''Error Text'', Value = Some ''8 - No detailed data available''\<rparr>,
      \<lparr>Variable = ''Make'', Value = Some ''ACURA''\<rparr>,
      \<lparr>Variable = ''Model'', Value = Some ''LEGEND''\<rparr>,
      \<lparr>Variable = ''Model Year'', Value = None\<rparr>]"

definition accordBody :: "raw_attr option list option vpic_body" where
  "accordBody = \<lparr>Results = Some (map Some accordAttrs)\<rparr>"

definition legendBody :: "raw_attr option list option vpic_body" where
  "legendBody = \<lparr>Results = Some (map Some partialAttrs)\<rparr>"

definition accordSpecs :: specs where
  "accordSpecs = [''Error Code'' \<mapsto> ''0'', ''Error Text'' \<mapsto> ''0 - VIN decoded clean'',
     ''Make'' \<mapsto> ''HONDA'', ''Model'' \<mapsto> ''ACCORD'', ''Model Year'' \<mapsto> ''2003'']"

definition legendSpecs :: specs where
  "legendSpecs = [''Error Code'' \<mapsto> ''8'', ''Error Text'' \<mapsto> ''8 - No detailed data available'',
     ''Make'' \<mapsto> ''ACURA'', ''Model'' \<mapsto> ''LEGEND'']"

definition recallNo :: "nat \<Rightarrow> recall_row" where
  "recallNo n = \<lparr>
     NHTSACampaignNumber = JNum (int n),
     Component = JStr ''AIR BAGS'',
     Summary = JStr ''Inflator may rupture'',
     Consequence = JNull,
     Remedy = JUndefined,
     Manufacturer = JStr ''Honda'' \<rparr>"

definition complaintNo :: "nat \<Rightarrow> complaint_row" where
  "complaintNo n = \<lparr>
     odiNumber = JNum (int n),
     components = JStr ''ENGINE'',
     summary = Some (replicate 600 (CHR ''x'')),
     crash = JBool False,
     fire = JBool False,
     injuries = JUndefined,
     dateOfIncident = JStr ''01/02/2020'' \<rparr>"

definition sampleNhtsa :: upstream where
  "sampleNhtsa = \<lparr>
     decodevin = (\<lambda>url.
       if url = decodeUrl ''1HGCM82633A004352''
         then Response 200 (Some accordBody)
       else if url = decodeUrl ''JH4KA7561PC008269''
         then Response 200 (Some legendBody)
       else Response 404 None),
     getModelsForMake = (\<lambda>url.
       Response 200 (Some \<lparr>Results =
         Some [\<lparr>Make_Name = JStr ''Toyota'', Model_Name = JStr ''Camry''\<rparr>]\<rparr>)),
     recallsByVehicle = (\<lambda>url.
       if url = ''https://api.nhtsa.gov/recalls/recallsByVehicle?make=honda&model=accord&modelYear=2003''
         then Response 200 (Some \<lparr>results = Some (map recallNo [0..<25])\<rparr>)
       else if url = recallUrlByVin ''1HGCM82633A004352''
         then Response 200 (Some \<lparr>results = Some [recallNo 7, recallNo 8]\<rparr>)
       else Response 503 None),
     complaintsByVehicle = (\<lambda>url.
       Response 200 (Some \<lparr>results = Some (map complaintNo [0..<21])\<rparr>)) \<rparr>"

definition sampleNhtsaDown :: upstream where
  "sampleNhtsaDown = sampleNhtsa \<lparr> recallsByVehicle := (\<lambda>url. Response 503 None) \<rparr>"

text \<open>
  An upstream whose decode service answers every request with status 200 and the JSON
  body \<^verbatim>\<open>{}\<close>.
\<close>

definition bareNhtsa :: upstream where
  "bareNhtsa = sampleNhtsa \<lparr> decodevin := (\<lambda>url. Response 200 (Some \<lparr>Results = None\<rparr>)) \<rparr>"

definition accordRow :: comparison_row where
  "accordRow = \<lparr>
     cr_vin = ''1HGCM82633A004352'', cr_year = Some ''2003'', cr_make = Some ''HONDA'',
     cr_model = Some ''ACCORD'', cr_trim = None, cr_bodyClass = None,
     cr_engine = ''undefinedL undefined-cyl'', cr_fuelType = None, cr_manufacturer = None,
     cr_plantCountry = None, cr_recallCount = 2 \<rparr>"

definition legendRow :: comparison_row where
  "legendRow = \<lparr>
     cr_vin = ''JH4KA7561PC008269'', cr_year = None, cr_make = Some ''ACURA'',
     cr_model = Some ''LEGEND'', cr_trim = None, cr_bodyClass = None,
     cr_engine = ''undefinedL undefined-cyl'', cr_fuelType = None, cr_manufacturer = None,
     cr_plantCountry = None, cr_recallCount = 0 \<rparr>"

section \<open>Properties\<close>

subsection \<open>The normalizer\<close>





lemma cleanLoop_nonempty:
  assumes "cleanLoop items m = Inr cleaned"
    and "\<forall>k v. m k = Some v \<longrightarrow> v \<noteq> []"
    and "cleaned k = Some v"
  shows "v \<noteq> []"
  using assms
proof (induction items m rule: cleanLoop.induct)
  case (1 cleaned')
  then show ?case by simp
next
  case (2 rest cleaned')
  then show ?case by simp
next
  case (3 item rest cleaned')
  let ?next = "if truthy (Value item) \<and> Value item \<noteq> Some '''' \<and> Value item \<noteq> Some ''Not Applicable''
       then setProperty cleaned' (Variable item) (the (Value item)) else cleaned'"
  have "\<forall>k v. ?next k = Some v \<longrightarrow> v \<noteq> []"
    using "3.prems"(2) by (simp add: truthy_def setProperty_def split: option.splits)
  moreover have "cleanLoop rest ?next = Inr cleaned"
    using "3.prems"(1) by simp
  ultimately show ?case
    using "3.IH" "3.prems"(3) by blast
qed

lemma cleanVinResults_nonempty:
  assumes "cleanVinResults rs = Inr cleaned" and "cleaned k = Some v"
  shows "v \<noteq> []"
proof -
  obtain items where "cleanLoop items Map.empty = Inr cleaned"
    using assms(1) by (cases rs) (simp_all add: cleanVinResults_def)
  then show ?thesis
    using cleanLoop_nonempty [of items Map.empty cleaned k v] assms(2) by simp
qed




subsection \<open>Evaluating the sample upstream\<close>

lemma toUpperCase_accord: "toUpperCase ''1hgcm82633a004352'' = ''1HGCM82633A004352''"
  by (simp add: toUpperCase_def toUpperCaseChar_def lowerLetters_def upperLetters_def)

lemma toUpperCase_legend: "toUpperCase ''jh4ka7561pc008269'' = ''JH4KA7561PC008269''"
  by (simp add: toUpperCase_def toUpperCaseChar_def lowerLetters_def upperLetters_def)

lemma accord_decode:
  "fetchJSON (decodevin sampleNhtsa) (decodeUrl ''1HGCM82633A004352'') = Inr accordBody"
  by (simp add: fetchJSON_def sampleNhtsa_def ok_def)

lemma legend_decode:
  "fetchJSON (decodevin sampleNhtsa) (decodeUrl ''JH4KA7561PC008269'') = Inr legendBody"
  by (simp add: fetchJSON_def sampleNhtsa_def ok_def NHTSA_VPIC_def)

lemma accord_clean: "cleanVinResults (Results accordBody) = Inr accordSpecs"
  by (simp add: cleanVinResults_def accordBody_def accordAttrs_def accordSpecs_def truthy_def
      setProperty_def)

lemma legend_clean: "cleanVinResults (Results legendBody) = Inr legendSpecs"
  by (simp add: cleanVinResults_def legendBody_def partialAttrs_def legendSpecs_def truthy_def
      setProperty_def)

lemma accord_specs:
  "accordSpecs ''Make'' = Some ''HONDA''"
  "accordSpecs ''Model'' = Some ''ACCORD''"
  "accordSpecs ''Model Year'' = Some ''2003''"
  "accordSpecs ''Error Code'' = Some ''0''"
  "accordSpecs ''Error Text'' = Some ''0 - VIN decoded clean''"
  "accordSpecs ''Trim'' = None"
  by (simp_all add: accordSpecs_def)

lemma legend_specs:
  "legendSpecs ''Make'' = Some ''ACURA''"
  "legendSpecs ''Model'' = Some ''LEGEND''"
  "legendSpecs ''Model Year'' = None"
  "legendSpecs ''Error Code'' = Some ''8''"
  "legendSpecs ''Error Text'' = Some ''8 - No detailed data available''"
  by (simp_all add: legendSpecs_def)

lemma accord_recallUrl:
  "recallUrlByIdentity (toLowerCase ''HONDA'') (toLowerCase ''ACCORD'') ''2003''
     = ''https://api.nhtsa.gov/recalls/recallsByVehicle?make=honda&model=accord&modelYear=2003''"
  by (simp add: toLowerCase_def toLowerCaseChar_def lowerLetters_def upperLetters_def
      encodeURIComponent_def encodeURIChar_def uriUnreserved_def)


lemma accord_recalls:
  "fetchJSON (recallsByVehicle sampleNhtsa)
     (recallUrlByIdentity (toLowerCase ''HONDA'') (toLowerCase ''ACCORD'') ''2003'')
     = Inr \<lparr>results = Some (map recallNo [0..<25])\<rparr>"
  unfolding accord_recallUrl by (simp add: fetchJSON_def sampleNhtsa_def ok_def)

subsection \<open>recalls-by-vin\<close>

lemma fetchJSON_Inr_iff:
  "fetchJSON fetch url = Inr data \<longleftrightarrow> (\<exists>status. fetch url = Response status (Some data) \<and> ok status)"
  by (auto simp: fetchJSON_def split: response.splits option.splits)

lemma recalls_by_vin_resolved:
  assumes "fetchJSON (decodevin up) (decodeUrl (toUpperCase vin)) = Inr decoded"
    and "cleanVinResults (Results decoded) = Inr specs"
    and "specs ''Make'' = Some mk"
    and "specs ''Model'' = Some md"
    and "specs ''Model Year'' = Some yr"
  shows "recalls_by_vin up vin =
    (case recallsByVehicle up (recallUrlByIdentity (toLowerCase mk) (toLowerCase md) yr) of
       FetchRejected \<Rightarrow>
         ([decodeUrl (toUpperCase vin), recallUrlByIdentity (toLowerCase mk) (toLowerCase md) yr],
          Inl NetworkError)
     | Response status body \<Rightarrow>
         if ok status
         then (case body of
                 None \<Rightarrow>
                   ([decodeUrl (toUpperCase vin),
                     recallUrlByIdentity (toLowerCase mk) (toLowerCase md) yr],
                    Inl JsonSyntaxError)
               | Some recallData \<Rightarrow>
                   ([decodeUrl (toUpperCase vin),
                     recallUrlByIdentity (toLowerCase mk) (toLowerCase md) yr],
                    Inr (recallsFound (toUpperCase vin) specs
                      (case results recallData of None \<Rightarrow> [] | Some rs \<Rightarrow> rs))))
         else ([decodeUrl (toUpperCase vin),
                recallUrlByIdentity (toLowerCase mk) (toLowerCase md) yr],
               Inr (recallsFound (toUpperCase vin) specs [])))"
proof -
  have "mk \<noteq> []" "md \<noteq> []" "yr \<noteq> []"
    using assms(3-5) cleanVinResults_nonempty [OF assms(2)] by blast+
  then show ?thesis
    using assms
    by (simp add: recalls_by_vin_def Let_def truthy_def split: response.splits option.splits)
qed

text \<open>
  C2. When the decode call of recalls-by-vin succeeds (\<open>fetchJSON\<close> returns the body:
  the status is 200 to 299 and the body is JSON) and the cleaned spec it yields has no
  \<^verbatim>\<open>Make\<close>, no \<^verbatim>\<open>Model\<close> or no \<^verbatim>\<open>Model Year\<close>, the handler requests the
  decode URL and nothing else, raises no error, and returns the zero-result output:
  \<^verbatim>\<open>recallCount\<close> 0, no recalls, \<^verbatim>\<open>vehicle\<close> null and the explanatory message.
\<close>

theorem recalls_by_vin_unresolved:
  assumes "fetchJSON (decodevin up) (decodeUrl (toUpperCase vin)) = Inr decoded"
    and "cleanVinResults (Results decoded) = Inr specs"
    and "specs ''Make'' = None
         \<or> specs ''Model'' = None
         \<or> specs ''Model Year'' = None"
  shows "recalls_by_vin up vin =
           ([decodeUrl (toUpperCase vin)],
            Inr \<lparr> rv_vin = toUpperCase vin,
                  rv_error = Some ''Could not decode VIN to get vehicle details'',
                  rv_vehicle = None,
                  rv_recallCount = 0,
                  rv_recalls = [] \<rparr>)"
  using assms by (auto simp: recalls_by_vin_def Let_def truthy_def)

theorem recalls_by_vin_unresolved_witness:
  "legendSpecs ''Model Year'' = None
   \<and> recalls_by_vin sampleNhtsa ''jh4ka7561pc008269'' =
       ([''https://vpic.nhtsa.dot.gov/api/vehicles/decodevin/JH4KA7561PC008269?format=json''],
        Inr \<lparr> rv_vin = ''JH4KA7561PC008269'',
              rv_error = Some ''Could not decode VIN to get vehicle details'',
              rv_vehicle = None,
              rv_recallCount = 0,
              rv_recalls = [] \<rparr>)"
proof -
  have decode: "fetchJSON (decodevin sampleNhtsa) (decodeUrl (toUpperCase ''jh4ka7561pc008269''))
      = Inr legendBody"
    using legend_decode by (simp add: toUpperCase_legend)
  have missing: "legendSpecs ''Make'' = None
      \<or> legendSpecs ''Model'' = None
      \<or> legendSpecs ''Model Year'' = None"
    by (simp add: legend_specs)
  show ?thesis
    using recalls_by_vin_unresolved [OF decode legend_clean missing]
    by (simp add: toUpperCase_legend legend_specs NHTSA_VPIC_def)
qed

text \<open>
  C5. When the decode call succeeds and the cleaned spec has a make, a model and a model
  year, and the recall
  query is answered with a status outside 200 to 299, recalls-by-vin still returns an
  output: the vehicle description built from the decoded spec, \<^verbatim>\<open>recallCount\<close> 0
  and no recalls.
\<close>

theorem recalls_by_vin_degraded:
  assumes "fetchJSON (decodevin up) (decodeUrl (toUpperCase vin)) = Inr decoded"
    and "cleanVinResults (Results decoded) = Inr specs"
    and "specs ''Make'' = Some mk"
    and "specs ''Model'' = Some md"
    and "specs ''Model Year'' = Some yr"
    and "recallsByVehicle up (recallUrlByIdentity (toLowerCase mk) (toLowerCase md) yr)
           = Response status body"
    and "\<not> ok status"
  shows "snd (recalls_by_vin up vin) =
           Inr \<lparr> rv_vin = toUpperCase vin,
                 rv_error = None,
                 rv_vehicle = Some (yr @ '' '' @ mk @ '' '' @ md),
                 rv_recallCount = 0,
                 rv_recalls = [] \<rparr>"
  using assms(6,7) unfolding recalls_by_vin_resolved [OF assms(1-5)]
  by (simp add: recallsFound_def template_def assms(3-5))

theorem recalls_by_vin_degraded_witness:
  "recallsByVehicle sampleNhtsaDown
      ''https://api.nhtsa.gov/recalls/recallsByVehicle?make=honda&model=accord&modelYear=2003''
     = Response 503 None
   \<and> \<not> ok 503
   \<and> snd (recalls_by_vin sampleNhtsaDown ''1hgcm82633a004352'') =
        Inr \<lparr> rv_vin = ''1HGCM82633A004352'',
              rv_error = None,
              rv_vehicle = Some ''2003 HONDA ACCORD'',
              rv_recallCount = 0,
              rv_recalls = [] \<rparr>"
proof -
  have decode: "fetchJSON (decodevin sampleNhtsaDown) (decodeUrl (toUpperCase ''1hgcm82633a004352''))
      = Inr accordBody"
    using accord_decode by (simp add: sampleNhtsaDown_def toUpperCase_accord)
  have down: "recallsByVehicle sampleNhtsaDown
      (recallUrlByIdentity (toLowerCase ''HONDA'') (toLowerCase ''ACCORD'') ''2003'') = Response 503 None"
    by (simp add: sampleNhtsaDown_def)
  have status: "\<not> ok 503"
    by (simp add: ok_def)
  have specs:
    "accordSpecs ''Make'' = Some ''HONDA''"
    "accordSpecs ''Model'' = Some ''ACCORD''"
    "accordSpecs ''Model Year'' = Some ''2003''"
    by (simp_all add: accord_specs)
  show ?thesis
    using recalls_by_vin_degraded [OF decode accord_clean specs down status]
    by (simp add: toUpperCase_accord sampleNhtsaDown_def ok_def)
qed

text \<open>
  C9. When the recall query succeeds with a list of rows, \<^verbatim>\<open>recallCount\<close> is the
  length of that whole list and \<^verbatim>\<open>recalls\<close> holds at most 20 of them; with more than
  20 rows upstream, \<^verbatim>\<open>recallCount\<close> is strictly larger than the number of entries
  returned.
\<close>

theorem recalls_by_vin_count:
  assumes "fetchJSON (decodevin up) (decodeUrl (toUpperCase vin)) = Inr decoded"
    and "cleanVinResults (Results decoded) = Inr specs"
    and "specs ''Make'' = Some mk"
    and "specs ''Model'' = Some md"
    and "specs ''Model Year'' = Some yr"
    and "fetchJSON (recallsByVehicle up) (recallUrlByIdentity (toLowerCase mk) (toLowerCase md) yr)
           = Inr recallData"
    and "results recallData = Some rs"
  shows "\<exists>out. snd (recalls_by_vin up vin) = Inr out
           \<and> rv_recallCount out = length rs
           \<and> length (rv_recalls out) = min 20 (length rs)
           \<and> (20 < length rs \<longrightarrow> length (rv_recalls out) < rv_recallCount out)"
  using assms(6,7) unfolding recalls_by_vin_resolved [OF assms(1-5)]
  by (auto simp: recallsFound_def fetchJSON_def split: response.splits option.splits if_splits)

theorem recalls_by_vin_count_witness:
  "\<exists>out. snd (recalls_by_vin sampleNhtsa ''1hgcm82633a004352'') = Inr out
      \<and> rv_recallCount out = 25 \<and> length (rv_recalls out) = 20
      \<and> length (rv_recalls out) < rv_recallCount out"
proof -
  have decode: "fetchJSON (decodevin sampleNhtsa) (decodeUrl (toUpperCase ''1hgcm82633a004352''))
      = Inr accordBody"
    using accord_decode by (simp add: toUpperCase_accord)
  have specs:
    "accordSpecs ''Make'' = Some ''HONDA''"
    "accordSpecs ''Model'' = Some ''ACCORD''"
    "accordSpecs ''Model Year'' = Some ''2003''"
    by (simp_all add: accord_specs)
  have rows: "results \<lparr>results = Some (map recallNo [0..<25])\<rparr> = Some (map recallNo [0..<25])"
    by simp
  show ?thesis
    using recalls_by_vin_count [OF decode accord_clean specs accord_recalls rows]
    by simp
qed

subsection \<open>decode-vin\<close>

text \<open>
  On a decode body that \<open>cleanVinResults\<close> can clean, decode-vin returns an output:
  \<^verbatim>\<open>isValid\<close> holds exactly when the cleaned spec has \<^verbatim>\<open>Error Code\<close> equal to
  \<^verbatim>\<open>0\<close>, and \<^verbatim>\<open>errorMessage\<close> is the cleaned spec's \<^verbatim>\<open>Error Text\<close>, so a decode
  error that the service reports arrives as data.
\<close>

lemma decode_vin_cleaned:
  assumes "fetchJSON (decodevin up) (decodeUrl (toUpperCase vin)) = Inr data"
    and "cleanVinResults (Results data) = Inr specs"
  shows "\<exists>out. snd (decode_vin up vin) = Inr out
           \<and> (dv_isValid out \<longleftrightarrow> specs ''Error Code'' = Some ''0'')
           \<and> dv_errorMessage out = specs ''Error Text''"
  using assms by (simp add: decode_vin_def Let_def)

lemma decode_vin_sample:
  "(\<exists>out. snd (decode_vin sampleNhtsa ''jh4ka7561pc008269'') = Inr out
      \<and> \<not> dv_isValid out
      \<and> dv_errorMessage out = Some ''8 - No detailed data available'')
   \<and> (\<exists>out. snd (decode_vin sampleNhtsa ''1hgcm82633a004352'') = Inr out
      \<and> dv_isValid out
      \<and> dv_errorMessage out = Some ''0 - VIN decoded clean'')"
proof -
  have legend: "fetchJSON (decodevin sampleNhtsa) (decodeUrl (toUpperCase ''jh4ka7561pc008269''))
      = Inr legendBody"
    using legend_decode by (simp add: toUpperCase_legend)
  have accord: "fetchJSON (decodevin sampleNhtsa) (decodeUrl (toUpperCase ''1hgcm82633a004352''))
      = Inr accordBody"
    using accord_decode by (simp add: toUpperCase_accord)
  show ?thesis
    using decode_vin_cleaned [OF legend legend_clean] decode_vin_cleaned [OF accord accord_clean]
    by (simp add: legend_specs accord_specs)
qed

text \<open>
  A decode response may have a success status and a JSON body without the
  \<^verbatim>\<open>Results\<close> array, or with a \<^verbatim>\<open>null\<close> row in it. The handler passes
  \<^verbatim>\<open>data.Results\<close> to \<open>cleanVinResults\<close> unguarded, so the TypeError of the loop
  leaves the handler.
\<close>

lemma decode_vin_unclean:
  assumes "fetchJSON (decodevin up) (decodeUrl (toUpperCase vin)) = Inr data"
    and "cleanVinResults (Results data) = Inl e"
  shows "decode_vin up vin = ([decodeUrl (toUpperCase vin)], Inl e)"
  using assms by (simp add: decode_vin_def Let_def)

lemma cleanVinResults_TypeError:
  "cleanVinResults None = Inl TypeError"
  "None \<in> set items \<Longrightarrow> cleanVinResults (Some items) = Inl TypeError"
proof -
  show "cleanVinResults None = Inl TypeError"
    by (simp add: cleanVinResults_def)
  have "None \<in> set items \<Longrightarrow> cleanLoop items m = Inl TypeError" for m
    by (induction items m rule: cleanLoop.induct) auto
  then show "None \<in> set items \<Longrightarrow> cleanVinResults (Some items) = Inl TypeError"
    by (simp add: cleanVinResults_def)
qed

text \<open>
  C7. The claim fails on the code: the decode service of \<open>bareNhtsa\<close> answers with
  status 200 and the JSON body \<^verbatim>\<open>{}\<close>, the decode call succeeds, and decode-vin
  raises a TypeError instead of returning an output.
\<close>

theorem decode_vin_raises_without_Results:
  "fetchJSON (decodevin bareNhtsa) (decodeUrl (toUpperCase ''1hgcm82633a004352''))
      = Inr \<lparr>Results = None\<rparr>
   \<and> decode_vin bareNhtsa ''1hgcm82633a004352'' =
       ([''https://vpic.nhtsa.dot.gov/api/vehicles/decodevin/1HGCM82633A004352?format=json''],
        Inl TypeError)"
proof -
  have fetched: "fetchJSON (decodevin bareNhtsa) (decodeUrl (toUpperCase ''1hgcm82633a004352''))
      = Inr \<lparr>Results = None\<rparr>"
    by (simp add: fetchJSON_def bareNhtsa_def ok_def)
  have "cleanVinResults (Results \<lparr>Results = None :: raw_attr option list option\<rparr>) = Inl TypeError"
    by (simp add: cleanVinResults_TypeError)
  from decode_vin_unclean [OF fetched this] fetched show ?thesis
    by (simp add: toUpperCase_accord NHTSA_VPIC_def)
qed

subsection \<open>Truncation of the recall and complaint lists\<close>

lemma complaints_handler_ok:
  assumes "fetchJSON (complaintsByVehicle up)
             (NHTSA_COMPLAINTS @ ''?make='' @ encodeURIComponent makeName
                @ ''&model='' @ encodeURIComponent modelName
                @ ''&modelYear='' @ numberToString year) = Inr data"
  shows "snd (complaints_handler up makeName modelName year) =
           Inr \<lparr> co_vehicle = numberToString year @ '' '' @ makeName @ '' '' @ modelName,
                 co_complaintCount = length (case results data of None \<Rightarrow> [] | Some cs \<Rightarrow> cs),
                 co_complaints = map complaintRecord
                   (take 20 (case results data of None \<Rightarrow> [] | Some cs \<Rightarrow> cs)) \<rparr>"
  using assms by (simp add: complaints_handler_def Let_def)

lemma recalls_by_vin_found:
  assumes "fetchJSON (decodevin up) (decodeUrl (toUpperCase vin)) = Inr decoded"
    and "cleanVinResults (Results decoded) = Inr specs"
    and "specs ''Make'' = Some mk"
    and "specs ''Model'' = Some md"
    and "specs ''Model Year'' = Some yr"
    and "fetchJSON (recallsByVehicle up) (recallUrlByIdentity (toLowerCase mk) (toLowerCase md) yr)
           = Inr recallData"
  shows "snd (recalls_by_vin up vin) =
           Inr (recallsFound (toUpperCase vin) specs
                  (case results recallData of None \<Rightarrow> [] | Some rs \<Rightarrow> rs))"
  using assms(6) unfolding recalls_by_vin_resolved [OF assms(1-5)]
  by (auto simp: fetchJSON_def split: response.splits option.splits if_splits)

text \<open>
  C6. The recalls returned by recalls-by-vin and the complaints returned by the complaints
  handler are the first 20 of the normalized upstream rows, in upstream order: at most 20
  entries, and exactly 20 when upstream has more. The summary of the i-th complaint
  returned is the first 500 characters of the i-th upstream summary.
\<close>

theorem lists_capped:
  "(fetchJSON (decodevin up) (decodeUrl (toUpperCase vin)) = Inr decoded
      \<and> cleanVinResults (Results decoded) = Inr specs
      \<and> specs ''Make'' = Some mk
      \<and> specs ''Model'' = Some md
      \<and> specs ''Model Year'' = Some yr
      \<and> fetchJSON (recallsByVehicle up)
           (recallUrlByIdentity (toLowerCase mk) (toLowerCase md) yr) = Inr recallData
      \<and> results recallData = Some rs
    \<longrightarrow> (\<exists>out. snd (recalls_by_vin up vin) = Inr out
           \<and> rv_recalls out = take 20 (map recallRecord rs)
           \<and> length (rv_recalls out) \<le> 20
           \<and> (20 < length rs \<longrightarrow> length (rv_recalls out) = 20)))
   \<and> (fetchJSON (complaintsByVehicle up)
             (NHTSA_COMPLAINTS @ ''?make='' @ encodeURIComponent makeName
                @ ''&model='' @ encodeURIComponent modelName
                @ ''&modelYear='' @ numberToString year) = Inr data
      \<and> results data = Some cs
    \<longrightarrow> (\<exists>out. snd (complaints_handler up makeName modelName year) = Inr out
           \<and> co_complaints out = take 20 (map complaintRecord cs)
           \<and> length (co_complaints out) \<le> 20
           \<and> (20 < length cs \<longrightarrow> length (co_complaints out) = 20)
           \<and> (\<forall>i < length (co_complaints out).
                 cp_summary (co_complaints out ! i) = map_option (take 500) (summary (cs ! i)))))"
proof (intro conjI impI)
  assume h: "fetchJSON (decodevin up) (decodeUrl (toUpperCase vin)) = Inr decoded
      \<and> cleanVinResults (Results decoded) = Inr specs
      \<and> specs ''Make'' = Some mk
      \<and> specs ''Model'' = Some md
      \<and> specs ''Model Year'' = Some yr
      \<and> fetchJSON (recallsByVehicle up)
           (recallUrlByIdentity (toLowerCase mk) (toLowerCase md) yr) = Inr recallData
      \<and> results recallData = Some rs"
  then have "snd (recalls_by_vin up vin) =
      Inr (recallsFound (toUpperCase vin) specs rs)"
    using recalls_by_vin_found [of up vin decoded specs mk md yr recallData] by simp
  then show "\<exists>out. snd (recalls_by_vin up vin) = Inr out
           \<and> rv_recalls out = take 20 (map recallRecord rs)
           \<and> length (rv_recalls out) \<le> 20
           \<and> (20 < length rs \<longrightarrow> length (rv_recalls out) = 20)"
    by (simp add: recallsFound_def take_map)
next
  assume h: "fetchJSON (complaintsByVehicle up)
             (NHTSA_COMPLAINTS @ ''?make='' @ encodeURIComponent makeName
                @ ''&model='' @ encodeURIComponent modelName
                @ ''&modelYear='' @ numberToString year) = Inr data
      \<and> results data = Some cs"
  then have "snd (complaints_handler up makeName modelName year) =
           Inr \<lparr> co_vehicle = numberToString year @ '' '' @ makeName @ '' '' @ modelName,
                 co_complaintCount = length cs,
                 co_complaints = map complaintRecord (take 20 cs) \<rparr>"
    using complaints_handler_ok [of up makeName modelName year data] by simp
  then show "\<exists>out. snd (complaints_handler up makeName modelName year) = Inr out
           \<and> co_complaints out = take 20 (map complaintRecord cs)
           \<and> length (co_complaints out) \<le> 20
           \<and> (20 < length cs \<longrightarrow> length (co_complaints out) = 20)
           \<and> (\<forall>i < length (co_complaints out).
                 cp_summary (co_complaints out ! i) = map_option (take 500) (summary (cs ! i)))"
    by (simp add: take_map complaintRecord_def)
qed


theorem lists_capped_witness:
  "(\<exists>out. snd (recalls_by_vin sampleNhtsa ''1hgcm82633a004352'') = Inr out
      \<and> rv_recalls out = map recallRecord (map recallNo [0..<20]))
   \<and> (\<exists>out. snd (complaints_handler sampleNhtsa ''Toyota'' ''Camry'' 2020) = Inr out
      \<and> length (co_complaints out) = 20
      \<and> (\<forall>i < 20. cp_summary (co_complaints out ! i) = Some (replicate 500 (CHR ''x''))))"
proof -
  have decode: "fetchJSON (decodevin sampleNhtsa) (decodeUrl (toUpperCase ''1hgcm82633a004352''))
      = Inr accordBody"
    using accord_decode by (simp add: toUpperCase_accord)
  have specs:
    "accordSpecs ''Make'' = Some ''HONDA''"
    "accordSpecs ''Model'' = Some ''ACCORD''"
    "accordSpecs ''Model Year'' = Some ''2003''"
    by (simp_all add: accord_specs)
  have rows: "results \<lparr>results = Some (map recallNo [0..<25])\<rparr> = Some (map recallNo [0..<25])"
    by simp
  have complaints: "fetchJSON (complaintsByVehicle sampleNhtsa)
             (NHTSA_COMPLAINTS @ ''?make='' @ encodeURIComponent ''Toyota''
                @ ''&model='' @ encodeURIComponent ''Camry''
                @ ''&modelYear='' @ numberToString 2020)
        = Inr \<lparr>results = Some (map complaintNo [0..<21])\<rparr>"
    by (simp add: fetchJSON_def sampleNhtsa_def ok_def)
  have crows: "results \<lparr>results = Some (map complaintNo [0..<21])\<rparr> = Some (map complaintNo [0..<21])"
    by simp
  note inst = lists_capped [of sampleNhtsa "''1hgcm82633a004352''" accordBody accordSpecs
      "''HONDA''" "''ACCORD''" "''2003''" "\<lparr>results = Some (map recallNo [0..<25])\<rparr>"
      "map recallNo [0..<25]" "''Toyota''" "''Camry''" 2020
      "\<lparr>results = Some (map complaintNo [0..<21])\<rparr>" "map complaintNo [0..<21]"]
  have first: "\<exists>out. snd (recalls_by_vin sampleNhtsa ''1hgcm82633a004352'') = Inr out
      \<and> rv_recalls out = map recallRecord (map recallNo [0..<20])"
    using inst decode accord_clean specs accord_recalls rows by (auto simp: take_map)
  have second: "\<exists>out. snd (complaints_handler sampleNhtsa ''Toyota'' ''Camry'' 2020) = Inr out
      \<and> length (co_complaints out) = 20
      \<and> (\<forall>i < 20. cp_summary (co_complaints out ! i) = Some (replicate 500 (CHR ''x'')))"
    using inst complaints crows by (auto simp: complaintNo_def)
  from first second show ?thesis by blast
qed

subsection \<open>compare\<close>

lemma toUpperCaseChar_idem: "toUpperCaseChar (toUpperCaseChar c) = toUpperCaseChar c"
  by (simp add: toUpperCaseChar_def lowerLetters_def upperLetters_def)

lemma toUpperCase_idem: "toUpperCase (toUpperCase s) = toUpperCase s"
  by (simp add: toUpperCase_def toUpperCaseChar_idem)

lemma compareSubject_upper: "compareSubject up (toUpperCase v) = compareSubject up v"
  by (simp add: compareSubject_def toUpperCase_idem)

lemma compareSubject_requests:
  "set (fst (compareSubject up v))
     \<subseteq> {decodeUrl (toUpperCase v), recallUrlByVin (toUpperCase v)}"
  by (simp add: compareSubject_def Let_def split: sum.splits)

lemma compareSubject_vin:
  "snd (compareSubject up v) = Inr row \<Longrightarrow> cr_vin row = toUpperCase v"
  by (auto simp: compareSubject_def Let_def split: sum.splits)

lemma promiseAll_map_Inr: "promiseAll (map Inr ys) = Inr ys"
  by (induction ys) simp_all

lemma promiseAll_Inr_D: "promiseAll xs = Inr ys \<Longrightarrow> xs = map Inr ys"
  by (induction xs arbitrary: ys rule: promiseAll.induct) (auto split: sum.splits)

lemma promiseAll_Inr_iff: "promiseAll xs = Inr ys \<longleftrightarrow> xs = map Inr ys"
  using promiseAll_map_Inr promiseAll_Inr_D by metis

lemma compare_Inr_iff:
  "snd (compare up vins) = Inr out \<longleftrightarrow>
     map (\<lambda>v. snd (compareSubject up v)) vins = map Inr (comparison out)"
  by (cases out) (auto simp: compare_def Let_def promiseAll_Inr_iff promiseAll_map_Inr comp_def split: sum.splits)

lemma compare_Inr_rows:
  assumes "snd (compare up vins) = Inr out"
  shows "length (comparison out) = length vins"
    and "i < length vins \<Longrightarrow> snd (compareSubject up (vins ! i)) = Inr (comparison out ! i)"
proof -
  have eq: "map (\<lambda>v. snd (compareSubject up v)) vins = map Inr (comparison out)"
    using assms by (simp add: compare_Inr_iff)
  from eq show len: "length (comparison out) = length vins"
    by (metis length_map)
  show "snd (compareSubject up (vins ! i)) = Inr (comparison out ! i)" if "i < length vins"
    using that len arg_cong [OF eq, of "\<lambda>xs. xs ! i"] by simp
qed

lemma promiseAll_Inl: "Inl e \<in> set xs \<Longrightarrow> \<exists>e'. promiseAll xs = Inl e'"
  by (induction xs rule: promiseAll.induct) (auto split: sum.splits)

lemma compareSubject_decode_failed:
  "fetchJSON (decodevin up) (decodeUrl (toUpperCase v)) = Inl e \<Longrightarrow>
     compareSubject up v = ([decodeUrl (toUpperCase v)], Inl e)"
  by (simp add: compareSubject_def Let_def)

lemma compareSubject_unclean:
  "fetchJSON (decodevin up) (decodeUrl (toUpperCase v)) = Inr decoded \<Longrightarrow>
     cleanVinResults (Results decoded) = Inl e \<Longrightarrow>
     compareSubject up v = ([decodeUrl (toUpperCase v)], Inl e)"
  by (simp add: compareSubject_def Let_def)

lemma compareSubject_decoded:
  assumes "fetchJSON (decodevin up) (decodeUrl (toUpperCase v)) = Inr decoded"
    and "cleanVinResults (Results decoded) = Inr specs"
  shows "\<exists>row. compareSubject up v
             = ([decodeUrl (toUpperCase v), recallUrlByVin (toUpperCase v)], Inr row)
           \<and> cr_year row = specs ''Model Year''
           \<and> cr_make row = specs ''Make''
           \<and> cr_model row = specs ''Model''"
  using assms by (simp add: compareSubject_def Let_def)

lemma compareSubject_recallCount:
  assumes "snd (compareSubject up v) = Inr row"
    and "fetchJSON (recallsByVehicle up) (recallUrlByVin (toUpperCase v)) = Inl e"
  shows "cr_recallCount row = 0"
  using assms by (auto simp: compareSubject_def Let_def split: sum.splits)

lemma compareSubject_recall_down:
  assumes "\<not> ok status"
  shows "compareSubject
           (up\<lparr>recallsByVehicle :=
                 (recallsByVehicle up)(recallUrlByVin (toUpperCase w) := Response status body)\<rparr>) v
         = (if toUpperCase v = toUpperCase w
            then (fst (compareSubject up v),
                  map_sum id (\<lambda>row. row\<lparr>cr_recallCount := 0\<rparr>) (snd (compareSubject up v)))
            else compareSubject up v)"
  using assms
  by (auto simp: compareSubject_def Let_def fetchJSON_def split: sum.splits response.splits)

text \<open>
  C3. When compare returns rows, there is one row per input, the i-th row is the row of
  the i-th input (its \<^verbatim>\<open>vin\<close> is that input in upper case), and a row whose recall
  lookup failed has \<^verbatim>\<open>recallCount\<close> 0. If, in addition, the recall lookup of subject
  \<open>j\<close> is answered with a non-success status, compare still returns one row per input
  in the same order: the rows of the subjects with the identification number of \<open>j\<close>
  have \<^verbatim>\<open>recallCount\<close> 0 and are otherwise unchanged, and every other row is the same
  as without that failure.
\<close>

theorem compare_rows_in_order:
  assumes "snd (compare up vins) = Inr out"
    and "j < length vins"
    and "\<not> ok status"
  shows "length (comparison out) = length vins
     \<and> (\<forall>i < length vins.
           snd (compareSubject up (vins ! i)) = Inr (comparison out ! i)
           \<and> cr_vin (comparison out ! i) = toUpperCase (vins ! i)
           \<and> ((\<exists>e. fetchJSON (recallsByVehicle up) (recallUrlByVin (toUpperCase (vins ! i))) = Inl e)
                \<longrightarrow> cr_recallCount (comparison out ! i) = 0))
     \<and> (\<exists>out'. snd (compare
                  (up\<lparr>recallsByVehicle :=
                        (recallsByVehicle up)
                          (recallUrlByVin (toUpperCase (vins ! j)) := Response status body)\<rparr>)
                  vins) = Inr out'
           \<and> length (comparison out') = length vins
           \<and> (\<forall>i < length vins.
                 comparison out' ! i =
                   (if toUpperCase (vins ! i) = toUpperCase (vins ! j)
                    then (comparison out ! i)\<lparr>cr_recallCount := 0\<rparr>
                    else comparison out ! i)))"
proof (intro conjI)
  show len: "length (comparison out) = length vins"
    using assms(1) by (rule compare_Inr_rows)
  have row: "snd (compareSubject up (vins ! i)) = Inr (comparison out ! i)" if "i < length vins" for i
    using compare_Inr_rows(2) [OF assms(1) that] .
  show "\<forall>i < length vins.
           snd (compareSubject up (vins ! i)) = Inr (comparison out ! i)
           \<and> cr_vin (comparison out ! i) = toUpperCase (vins ! i)
           \<and> ((\<exists>e. fetchJSON (recallsByVehicle up) (recallUrlByVin (toUpperCase (vins ! i))) = Inl e)
                \<longrightarrow> cr_recallCount (comparison out ! i) = 0)"
    using row compareSubject_vin compareSubject_recallCount by blast
  define up' where "up' = up\<lparr>recallsByVehicle :=
      (recallsByVehicle up)(recallUrlByVin (toUpperCase (vins ! j)) := Response status body)\<rparr>"
  define rows' where "rows' = map (\<lambda>i.
      if toUpperCase (vins ! i) = toUpperCase (vins ! j)
      then (comparison out ! i)\<lparr>cr_recallCount := 0\<rparr>
      else comparison out ! i) [0..<length vins]"
  have "map (\<lambda>v. snd (compareSubject up' v)) vins = map Inr rows'"
  proof (rule nth_equalityI)
    show "length (map (\<lambda>v. snd (compareSubject up' v)) vins) = length (map Inr rows')"
      by (simp add: rows'_def)
  next
    fix i
    assume "i < length (map (\<lambda>v. snd (compareSubject up' v)) vins)"
    then have i: "i < length vins" by simp
    have "compareSubject up' (vins ! i) =
        (if toUpperCase (vins ! i) = toUpperCase (vins ! j)
         then (fst (compareSubject up (vins ! i)),
               map_sum id (\<lambda>row. row\<lparr>cr_recallCount := 0\<rparr>) (snd (compareSubject up (vins ! i))))
         else compareSubject up (vins ! i))"
      unfolding up'_def by (rule compareSubject_recall_down [OF assms(3)])
    then show "map (\<lambda>v. snd (compareSubject up' v)) vins ! i = map Inr rows' ! i"
      using i row [OF i] by (simp add: rows'_def)
  qed
  then have "snd (compare up' vins) = Inr \<lparr>comparison = rows'\<rparr>"
    by (simp add: compare_Inr_iff)
  moreover have "length rows' = length vins"
    by (simp add: rows'_def)
  moreover have "\<forall>i < length vins. rows' ! i =
      (if toUpperCase (vins ! i) = toUpperCase (vins ! j)
       then (comparison out ! i)\<lparr>cr_recallCount := 0\<rparr>
       else comparison out ! i)"
    by (simp add: rows'_def)
  ultimately show "\<exists>out'. snd (compare
                  (up\<lparr>recallsByVehicle :=
                        (recallsByVehicle up)
                          (recallUrlByVin (toUpperCase (vins ! j)) := Response status body)\<rparr>)
                  vins) = Inr out'
           \<and> length (comparison out') = length vins
           \<and> (\<forall>i < length vins.
                 comparison out' ! i =
                   (if toUpperCase (vins ! i) = toUpperCase (vins ! j)
                    then (comparison out ! i)\<lparr>cr_recallCount := 0\<rparr>
                    else comparison out ! i))"
    unfolding up'_def by (intro exI [of _ "\<lparr>comparison = rows'\<rparr>"]) simp
qed

lemma compare_all_decoded:
  assumes "\<forall>v \<in> set vins. \<exists>d specs. fetchJSON (decodevin up) (decodeUrl (toUpperCase v)) = Inr d
        \<and> cleanVinResults (Results d) = Inr specs"
  shows "\<exists>out. snd (compare up vins) = Inr out"
proof -
  have "\<forall>v \<in> set vins. \<exists>row. snd (compareSubject up v) = Inr row"
    using assms compareSubject_decoded by (metis snd_conv)
  then obtain f where f: "\<forall>v \<in> set vins. snd (compareSubject up v) = Inr (f v)"
    by metis
  then have "map (\<lambda>v. snd (compareSubject up v)) vins = map Inr (map f vins)"
    by simp
  then have "snd (compare up vins) = Inr \<lparr>comparison = map f vins\<rparr>"
    by (simp add: compare_Inr_iff)
  then show ?thesis by blast
qed

text \<open>
  C4. If the decode call of one subject is answered with a non-success status, compare
  raises an error and returns no rows. If every decode call succeeds and yields a cleaned
  spec, compare returns one row per input whatever the recall lookups do.
\<close>

theorem compare_decode_failure:
  "(v \<in> set vins \<and> decodevin up (decodeUrl (toUpperCase v)) = Response status body
      \<and> \<not> ok status
    \<longrightarrow> (\<exists>e. snd (compare up vins) = Inl e))
   \<and> ((\<forall>v \<in> set vins. \<exists>d specs. fetchJSON (decodevin up) (decodeUrl (toUpperCase v)) = Inr d
        \<and> cleanVinResults (Results d) = Inr specs)
    \<longrightarrow> (\<exists>out. snd (compare up vins) = Inr out \<and> length (comparison out) = length vins))"
proof (intro conjI impI)
  assume h: "v \<in> set vins \<and> decodevin up (decodeUrl (toUpperCase v)) = Response status body
      \<and> \<not> ok status"
  then have "fetchJSON (decodevin up) (decodeUrl (toUpperCase v)) = Inl (UpstreamError status)"
    by (simp add: fetchJSON_def)
  then have "snd (compareSubject up v) = Inl (UpstreamError status)"
    by (simp add: compareSubject_decode_failed)
  with h have "Inl (UpstreamError status) \<in> set (map snd (map (compareSubject up) vins))"
    by force
  then obtain e where "promiseAll (map snd (map (compareSubject up) vins)) = Inl e"
    using promiseAll_Inl by blast
  then show "\<exists>e. snd (compare up vins) = Inl e"
    by (simp add: compare_def Let_def)
next
  assume "\<forall>v \<in> set vins. \<exists>d specs. fetchJSON (decodevin up) (decodeUrl (toUpperCase v)) = Inr d
        \<and> cleanVinResults (Results d) = Inr specs"
  then obtain out where "snd (compare up vins) = Inr out"
    using compare_all_decoded by blast
  then show "\<exists>out. snd (compare up vins) = Inr out \<and> length (comparison out) = length vins"
    using compare_Inr_rows(1) by blast
qed


lemmas sample_defs =
  toUpperCase_def toUpperCaseChar_def lowerLetters_def upperLetters_def fetchJSON_def
  sampleNhtsa_def ok_def NHTSA_VPIC_def NHTSA_RECALLS_def cleanVinResults_def accordAttrs_def
  partialAttrs_def accordBody_def legendBody_def setProperty_def truthy_def template_def

lemma accord_subject:
  "compareSubject sampleNhtsa ''1hgcm82633a004352'' =
     ([''https://vpic.nhtsa.dot.gov/api/vehicles/decodevin/1HGCM82633A004352?format=json'',
       ''https://api.nhtsa.gov/recalls/recallsByVehicle?vin=1HGCM82633A004352''],
      Inr accordRow)"
  by (simp add: compareSubject_def Let_def accordRow_def sample_defs)

lemma legend_subject:
  "compareSubject sampleNhtsa ''jh4ka7561pc008269'' =
     ([''https://vpic.nhtsa.dot.gov/api/vehicles/decodevin/JH4KA7561PC008269?format=json'',
       ''https://api.nhtsa.gov/recalls/recallsByVehicle?vin=JH4KA7561PC008269''],
      Inr legendRow)"
  by (simp add: compareSubject_def Let_def legendRow_def sample_defs)

lemma sample_compare:
  "snd (compare sampleNhtsa [''1hgcm82633a004352'', ''jh4ka7561pc008269''])
     = Inr \<lparr>comparison = [accordRow, legendRow]\<rparr>"
  by (simp add: compare_def Let_def accord_subject legend_subject)

theorem compare_rows_in_order_witness:
  "snd (compare sampleNhtsa [''1hgcm82633a004352'', ''jh4ka7561pc008269''])
      = Inr \<lparr>comparison = [accordRow, legendRow]\<rparr>
   \<and> cr_vin accordRow = ''1HGCM82633A004352'' \<and> cr_recallCount accordRow = 2
   \<and> cr_vin legendRow = ''JH4KA7561PC008269'' \<and> cr_recallCount legendRow = 0
   \<and> (\<exists>out'. snd (compare
          (sampleNhtsa\<lparr>recallsByVehicle :=
             (recallsByVehicle sampleNhtsa)
               (''https://api.nhtsa.gov/recalls/recallsByVehicle?vin=1HGCM82633A004352''
                  := Response 500 None)\<rparr>)
          [''1hgcm82633a004352'', ''jh4ka7561pc008269'']) = Inr out'
        \<and> comparison out' = [accordRow\<lparr>cr_recallCount := 0\<rparr>, legendRow])"
proof -
  have j: "0 < length [''1hgcm82633a004352'', ''jh4ka7561pc008269'']"
    by simp
  have bad: "\<not> ok 500"
    by (simp add: ok_def)
  have legend_fails: "\<exists>e. fetchJSON (recallsByVehicle sampleNhtsa)
      (recallUrlByVin (toUpperCase ''jh4ka7561pc008269'')) = Inl e"
    by (simp add: sample_defs)
  note inst = compare_rows_in_order [OF sample_compare j bad, of None]
  from inst have rows: "\<forall>i < 2.
      cr_vin ([accordRow, legendRow] ! i)
        = toUpperCase ([''1hgcm82633a004352'', ''jh4ka7561pc008269''] ! i)
      \<and> ((\<exists>e. fetchJSON (recallsByVehicle sampleNhtsa)
             (recallUrlByVin (toUpperCase ([''1hgcm82633a004352'', ''jh4ka7561pc008269''] ! i)))
             = Inl e)
          \<longrightarrow> cr_recallCount ([accordRow, legendRow] ! i) = 0)"
    by simp
  from rows [rule_format, of 0] have a: "cr_vin accordRow = ''1HGCM82633A004352''"
    by (simp add: toUpperCase_accord)
  from rows [rule_format, of 1] legend_fails
  have b: "cr_vin legendRow = ''JH4KA7561PC008269''" "cr_recallCount legendRow = 0"
    by (simp_all add: toUpperCase_legend)
  have c: "cr_recallCount accordRow = 2"
    by (simp add: accordRow_def)
  from inst obtain out' where out':
    "snd (compare
          (sampleNhtsa\<lparr>recallsByVehicle :=
             (recallsByVehicle sampleNhtsa)
               (recallUrlByVin (toUpperCase ([''1hgcm82633a004352'', ''jh4ka7561pc008269''] ! 0))
                  := Response 500 None)\<rparr>)
          [''1hgcm82633a004352'', ''jh4ka7561pc008269'']) = Inr out'"
    "length (comparison out') = length [''1hgcm82633a004352'', ''jh4ka7561pc008269'']"
    "\<forall>i < length [''1hgcm82633a004352'', ''jh4ka7561pc008269''].
       comparison out' ! i =
         (if toUpperCase ([''1hgcm82633a004352'', ''jh4ka7561pc008269''] ! i)
               = toUpperCase ([''1hgcm82633a004352'', ''jh4ka7561pc008269''] ! 0)
          then (comparison \<lparr>comparison = [accordRow, legendRow]\<rparr> ! i)\<lparr>cr_recallCount := 0\<rparr>
          else comparison \<lparr>comparison = [accordRow, legendRow]\<rparr> ! i)"
    by blast
  from out'(3) [rule_format, of 0] out'(3) [rule_format, of 1]
  have "comparison out' ! 0 = accordRow\<lparr>cr_recallCount := 0\<rparr>" "comparison out' ! 1 = legendRow"
    by (simp_all add: toUpperCase_accord toUpperCase_legend)
  with out'(2) have "comparison out' = [accordRow\<lparr>cr_recallCount := 0\<rparr>, legendRow]"
    by (cases "comparison out'" rule: list.exhaust; simp)
       (cases "tl (comparison out')" rule: list.exhaust; simp)
  with out'(1) have d: "\<exists>out'. snd (compare
          (sampleNhtsa\<lparr>recallsByVehicle :=
             (recallsByVehicle sampleNhtsa)
               (''https://api.nhtsa.gov/recalls/recallsByVehicle?vin=1HGCM82633A004352''
                  := Response 500 None)\<rparr>)
          [''1hgcm82633a004352'', ''jh4ka7561pc008269'']) = Inr out'
        \<and> comparison out' = [accordRow\<lparr>cr_recallCount := 0\<rparr>, legendRow]"
    by (simp add: toUpperCase_accord NHTSA_RECALLS_def)
  from sample_compare a b c d show ?thesis by blast
qed

theorem compare_decode_failure_witness:
  "decodevin sampleNhtsa (decodeUrl ''5YJSA1E26HF000337'') = Response 404 None
   \<and> \<not> ok 404
   \<and> (\<exists>e. snd (compare sampleNhtsa
              [''1hgcm82633a004352'', ''5yjsa1e26hf000337'', ''jh4ka7561pc008269'']) = Inl e)
   \<and> (\<exists>out. snd (compare sampleNhtsa [''1hgcm82633a004352'', ''jh4ka7561pc008269'']) = Inr out
        \<and> length (comparison out) = 2)"
proof -
  have up: "toUpperCase ''5yjsa1e26hf000337'' = ''5YJSA1E26HF000337''"
    by (simp add: sample_defs)
  have a: "decodevin sampleNhtsa (decodeUrl ''5YJSA1E26HF000337'') = Response 404 None"
    by (simp add: sampleNhtsa_def NHTSA_VPIC_def)
  have b: "\<not> ok 404"
    by (simp add: ok_def)
  have c: "\<exists>e. snd (compare sampleNhtsa
      [''1hgcm82633a004352'', ''5yjsa1e26hf000337'', ''jh4ka7561pc008269'']) = Inl e"
    using compare_decode_failure [of "''5yjsa1e26hf000337''"
        "[''1hgcm82633a004352'', ''5yjsa1e26hf000337'', ''jh4ka7561pc008269'']"
        sampleNhtsa 404 None] a b
    by (simp add: up)
  have all: "\<forall>v \<in> set [''1hgcm82633a004352'', ''jh4ka7561pc008269''].
      \<exists>d specs. fetchJSON (decodevin sampleNhtsa) (decodeUrl (toUpperCase v)) = Inr d
        \<and> cleanVinResults (Results d) = Inr specs"
    using accord_decode legend_decode accord_clean legend_clean
    by (simp add: toUpperCase_accord toUpperCase_legend)
  have d: "\<exists>out. snd (compare sampleNhtsa [''1hgcm82633a004352'', ''jh4ka7561pc008269'']) = Inr out
        \<and> length (comparison out) = 2"
    using compare_decode_failure [of "''1hgcm82633a004352''"
        "[''1hgcm82633a004352'', ''jh4ka7561pc008269'']" sampleNhtsa 404 None,
        THEN conjunct2, THEN mp, OF all]
    by (simp add: numeral_2_eq_2)
  from a b c d show ?thesis by blast
qed

subsection \<open>compare and identity resolution\<close>

lemma recalls_by_vin_short_circuit:
  assumes "fetchJSON (decodevin up) (decodeUrl (toUpperCase vin)) = Inr decoded"
    and "cleanVinResults (Results decoded) = Inr specs"
    and "specs ''Make'' = None
         \<or> specs ''Model'' = None
         \<or> specs ''Model Year'' = None"
  shows "fst (recalls_by_vin up vin) = [decodeUrl (toUpperCase vin)]"
  using assms by (auto simp: recalls_by_vin_def Let_def truthy_def)

lemma compare_requests:
  "i < length vins \<Longrightarrow> fst (compare up vins) ! i = fst (compareSubject up (vins ! i))"
  by (simp add: compare_def Let_def)

text \<open>
  C10. compare makes no identity check. When every decode call succeeds and yields a
  cleaned spec, and the cleaned spec of subject \<open>i\<close> has no \<^verbatim>\<open>Make\<close>, no \<^verbatim>\<open>Model\<close> or no
  \<^verbatim>\<open>Model Year\<close>, compare still returns a row for that subject, with \<^verbatim>\<open>make\<close>,
  \<^verbatim>\<open>model\<close> and \<^verbatim>\<open>year\<close> as the cleaned spec has them (absent where it has none),
  and the pipeline of that subject still requests its recall lookup; recalls-by-vin for
  the same identification number requests the decode URL only.
\<close>

theorem compare_unresolved_subject:
  assumes "\<forall>v \<in> set vins. \<exists>d specs. fetchJSON (decodevin up) (decodeUrl (toUpperCase v)) = Inr d
        \<and> cleanVinResults (Results d) = Inr specs"
    and "i < length vins"
    and "fetchJSON (decodevin up) (decodeUrl (toUpperCase (vins ! i))) = Inr decoded"
    and "cleanVinResults (Results decoded) = Inr specs"
    and "specs ''Make'' = None
         \<or> specs ''Model'' = None
         \<or> specs ''Model Year'' = None"
  shows "\<exists>out. snd (compare up vins) = Inr out
           \<and> length (comparison out) = length vins
           \<and> cr_vin (comparison out ! i) = toUpperCase (vins ! i)
           \<and> cr_make (comparison out ! i) = specs ''Make''
           \<and> cr_model (comparison out ! i) = specs ''Model''
           \<and> cr_year (comparison out ! i) = specs ''Model Year''
           \<and> fst (compare up vins) ! i
               = [decodeUrl (toUpperCase (vins ! i)), recallUrlByVin (toUpperCase (vins ! i))]
           \<and> fst (recalls_by_vin up (vins ! i)) = [decodeUrl (toUpperCase (vins ! i))]"
proof -
  obtain out where out: "snd (compare up vins) = Inr out"
    using compare_all_decoded [OF assms(1)] by blast
  have row: "snd (compareSubject up (vins ! i)) = Inr (comparison out ! i)"
    using compare_Inr_rows(2) [OF out assms(2)] .
  obtain r where r: "compareSubject up (vins ! i)
        = ([decodeUrl (toUpperCase (vins ! i)), recallUrlByVin (toUpperCase (vins ! i))], Inr r)"
    "cr_year r = specs ''Model Year''"
    "cr_make r = specs ''Make''"
    "cr_model r = specs ''Model''"
    using compareSubject_decoded [OF assms(3,4)] by blast
  from r(1) row have same: "comparison out ! i = r"
    by simp
  have "length (comparison out) = length vins"
    using out by (rule compare_Inr_rows(1))
  moreover have "cr_vin (comparison out ! i) = toUpperCase (vins ! i)"
    using row by (rule compareSubject_vin)
  moreover have "fst (compare up vins) ! i
      = [decodeUrl (toUpperCase (vins ! i)), recallUrlByVin (toUpperCase (vins ! i))]"
    using r(1) by (simp add: compare_requests [OF assms(2)])
  moreover have "fst (recalls_by_vin up (vins ! i)) = [decodeUrl (toUpperCase (vins ! i))]"
    using assms(3,4,5) by (rule recalls_by_vin_short_circuit)
  ultimately show ?thesis
    using out r(2-4) same by blast
qed

theorem compare_unresolved_subject_witness:
  "legendSpecs ''Model Year'' = None
   \<and> (\<exists>out. snd (compare sampleNhtsa [''1hgcm82633a004352'', ''jh4ka7561pc008269'']) = Inr out
        \<and> length (comparison out) = 2
        \<and> cr_vin (comparison out ! 1) = ''JH4KA7561PC008269''
        \<and> cr_make (comparison out ! 1) = Some ''ACURA''
        \<and> cr_model (comparison out ! 1) = Some ''LEGEND''
        \<and> cr_year (comparison out ! 1) = None)
   \<and> fst (compare sampleNhtsa [''1hgcm82633a004352'', ''jh4ka7561pc008269'']) ! 1
        = [''https://vpic.nhtsa.dot.gov/api/vehicles/decodevin/JH4KA7561PC008269?format=json'',
           ''https://api.nhtsa.gov/recalls/recallsByVehicle?vin=JH4KA7561PC008269'']
   \<and> fst (recalls_by_vin sampleNhtsa ''jh4ka7561pc008269'')
        = [''https://vpic.nhtsa.dot.gov/api/vehicles/decodevin/JH4KA7561PC008269?format=json'']"
proof -
  have all: "\<forall>v \<in> set [''1hgcm82633a004352'', ''jh4ka7561pc008269''].
      \<exists>d specs. fetchJSON (decodevin sampleNhtsa) (decodeUrl (toUpperCase v)) = Inr d
        \<and> cleanVinResults (Results d) = Inr specs"
    using accord_decode legend_decode accord_clean legend_clean
    by (simp add: toUpperCase_accord toUpperCase_legend)
  have i: "1 < length [''1hgcm82633a004352'', ''jh4ka7561pc008269'']"
    by simp
  have decode: "fetchJSON (decodevin sampleNhtsa)
      (decodeUrl (toUpperCase ([''1hgcm82633a004352'', ''jh4ka7561pc008269''] ! 1)))
      = Inr legendBody"
    using legend_decode by (simp add: toUpperCase_legend)
  have missing: "legendSpecs ''Make'' = None
      \<or> legendSpecs ''Model'' = None
      \<or> legendSpecs ''Model Year'' = None"
    by (simp add: legend_specs)
  show ?thesis
    using compare_unresolved_subject [OF all i decode legend_clean missing]
    by (auto simp: legend_specs toUpperCase_legend NHTSA_VPIC_def NHTSA_RECALLS_def numeral_2_eq_2)
qed


subsection \<open>Case normalization\<close>

lemma decode_vin_upper:
  "fst (decode_vin up vin) = [decodeUrl (toUpperCase vin)]
   \<and> decode_vin up vin = decode_vin up (toUpperCase vin)
   \<and> (\<forall>out. snd (decode_vin up vin) = Inr out \<longrightarrow> dv_vin out = toUpperCase vin)"
  by (auto simp: decode_vin_def Let_def toUpperCase_idem split: sum.splits)

lemma recalls_by_vin_upper:
  "hd (fst (recalls_by_vin up vin)) = decodeUrl (toUpperCase vin)
   \<and> recalls_by_vin up vin = recalls_by_vin up (toUpperCase vin)
   \<and> (\<forall>out. snd (recalls_by_vin up vin) = Inr out \<longrightarrow> rv_vin out = toUpperCase vin)"
  by (auto simp: recalls_by_vin_def Let_def toUpperCase_idem recallsFound_def
      split: sum.splits response.splits option.splits if_splits)

lemma compare_upper:
  "compare up vins = compare up (map toUpperCase vins)
   \<and> (\<forall>i < length vins. set (fst (compare up vins) ! i)
         \<subseteq> {decodeUrl (toUpperCase (vins ! i)), recallUrlByVin (toUpperCase (vins ! i))})
   \<and> (\<forall>out. snd (compare up vins) = Inr out
         \<longrightarrow> map cr_vin (comparison out) = map toUpperCase vins)"
proof (intro conjI allI impI)
  show "compare up vins = compare up (map toUpperCase vins)"
    by (simp add: compare_def comp_def compareSubject_upper)
next
  fix i assume "i < length vins"
  then show "set (fst (compare up vins) ! i)
      \<subseteq> {decodeUrl (toUpperCase (vins ! i)), recallUrlByVin (toUpperCase (vins ! i))}"
    using compareSubject_requests [of up "vins ! i"] by (simp add: compare_requests)
next
  fix out assume out: "snd (compare up vins) = Inr out"
  show "map cr_vin (comparison out) = map toUpperCase vins"
  proof (rule nth_equalityI)
    show "length (map cr_vin (comparison out)) = length (map toUpperCase vins)"
      using compare_Inr_rows(1) [OF out] by simp
  next
    fix i assume "i < length (map cr_vin (comparison out))"
    then have i: "i < length vins"
      using compare_Inr_rows(1) [OF out] by simp
    then show "map cr_vin (comparison out) ! i = map toUpperCase vins ! i"
      using compare_Inr_rows(1) [OF out] compareSubject_vin [OF compare_Inr_rows(2) [OF out i]] by simp
  qed
qed

lemma recalls_by_vin_query:
  assumes "fetchJSON (decodevin up) (decodeUrl (toUpperCase vin)) = Inr decoded"
    and "cleanVinResults (Results decoded) = Inr specs"
    and "specs ''Make'' = Some mk"
    and "specs ''Model'' = Some md"
    and "specs ''Model Year'' = Some yr"
  shows "fst (recalls_by_vin up vin) =
           [decodeUrl (toUpperCase vin),
            ''https://api.nhtsa.gov/recalls/recallsByVehicle?make=''
              @ encodeURIComponent (toLowerCase mk) @ ''&model=''
              @ encodeURIComponent (toLowerCase md) @ ''&modelYear='' @ yr]"
    and "\<forall>out. snd (recalls_by_vin up vin) = Inr out
           \<longrightarrow> rv_vehicle out = Some (yr @ '' '' @ mk @ '' '' @ md)"
  unfolding recalls_by_vin_resolved [OF assms]
  by (auto simp: recallsFound_def template_def assms(3-5) split: response.splits option.splits)

text \<open>
  C8. decode-vin, recalls-by-vin and compare use an identification number only in upper
  case: in every URL they request and in the \<^verbatim>\<open>vin\<close> they return, and they behave on
  an input as on its upper-case form. The recall query of recalls-by-vin is built from the
  lower-cased make and model and the model year of the cleaned spec, while the vehicle
  description it returns keeps their case. The models and complaints handlers put the make
  and the model they are given into the URL (percent-encoded, case unchanged) and into the
  output.
\<close>

theorem case_normalization:
  "(fst (decode_vin up vin) = [decodeUrl (toUpperCase vin)]
      \<and> decode_vin up vin = decode_vin up (toUpperCase vin)
      \<and> (\<forall>out. snd (decode_vin up vin) = Inr out \<longrightarrow> dv_vin out = toUpperCase vin))
   \<and> (hd (fst (recalls_by_vin up vin)) = decodeUrl (toUpperCase vin)
      \<and> recalls_by_vin up vin = recalls_by_vin up (toUpperCase vin)
      \<and> (\<forall>out. snd (recalls_by_vin up vin) = Inr out \<longrightarrow> rv_vin out = toUpperCase vin))
   \<and> (compare up vins = compare up (map toUpperCase vins)
      \<and> (\<forall>i < length vins. set (fst (compare up vins) ! i)
            \<subseteq> {decodeUrl (toUpperCase (vins ! i)), recallUrlByVin (toUpperCase (vins ! i))})
      \<and> (\<forall>out. snd (compare up vins) = Inr out
            \<longrightarrow> map cr_vin (comparison out) = map toUpperCase vins))
   \<and> (fetchJSON (decodevin up) (decodeUrl (toUpperCase vin)) = Inr decoded
        \<and> cleanVinResults (Results decoded) = Inr specs
        \<and> specs ''Make'' = Some mk
        \<and> specs ''Model'' = Some md
        \<and> specs ''Model Year'' = Some yr
      \<longrightarrow> fst (recalls_by_vin up vin) =
            [decodeUrl (toUpperCase vin),
             ''https://api.nhtsa.gov/recalls/recallsByVehicle?make=''
               @ encodeURIComponent (toLowerCase mk) @ ''&model=''
               @ encodeURIComponent (toLowerCase md) @ ''&modelYear='' @ yr]
          \<and> (\<forall>out. snd (recalls_by_vin up vin) = Inr out
                \<longrightarrow> rv_vehicle out = Some (yr @ '' '' @ mk @ '' '' @ md)))
   \<and> (fst (models_for_make up makeName) =
         [NHTSA_VPIC @ ''/GetModelsForMake/'' @ encodeURIComponent makeName @ ''?format=json'']
      \<and> (\<forall>out. snd (models_for_make up makeName) = Inr out \<longrightarrow> mo_make out = makeName))
   \<and> (fst (complaints_handler up makeName modelName year) =
         [NHTSA_COMPLAINTS @ ''?make='' @ encodeURIComponent makeName
            @ ''&model='' @ encodeURIComponent modelName
            @ ''&modelYear='' @ numberToString year]
      \<and> (\<forall>out. snd (complaints_handler up makeName modelName year) = Inr out
            \<longrightarrow> co_vehicle out = numberToString year @ '' '' @ makeName @ '' '' @ modelName))"
proof (intro conjI)
  show "fst (decode_vin up vin) = [decodeUrl (toUpperCase vin)]"
    "decode_vin up vin = decode_vin up (toUpperCase vin)"
    "\<forall>out. snd (decode_vin up vin) = Inr out \<longrightarrow> dv_vin out = toUpperCase vin"
    using decode_vin_upper by blast+
  show "hd (fst (recalls_by_vin up vin)) = decodeUrl (toUpperCase vin)"
    "recalls_by_vin up vin = recalls_by_vin up (toUpperCase vin)"
    "\<forall>out. snd (recalls_by_vin up vin) = Inr out \<longrightarrow> rv_vin out = toUpperCase vin"
    using recalls_by_vin_upper by blast+
  show "compare up vins = compare up (map toUpperCase vins)"
    "\<forall>i < length vins. set (fst (compare up vins) ! i)
        \<subseteq> {decodeUrl (toUpperCase (vins ! i)), recallUrlByVin (toUpperCase (vins ! i))}"
    "\<forall>out. snd (compare up vins) = Inr out
        \<longrightarrow> map cr_vin (comparison out) = map toUpperCase vins"
    using compare_upper by blast+
  show "fetchJSON (decodevin up) (decodeUrl (toUpperCase vin)) = Inr decoded
        \<and> cleanVinResults (Results decoded) = Inr specs
        \<and> specs ''Make'' = Some mk
        \<and> specs ''Model'' = Some md
        \<and> specs ''Model Year'' = Some yr
      \<longrightarrow> fst (recalls_by_vin up vin) =
            [decodeUrl (toUpperCase vin),
             ''https://api.nhtsa.gov/recalls/recallsByVehicle?make=''
               @ encodeURIComponent (toLowerCase mk) @ ''&model=''
               @ encodeURIComponent (toLowerCase md) @ ''&modelYear='' @ yr]
          \<and> (\<forall>out. snd (recalls_by_vin up vin) = Inr out
                \<longrightarrow> rv_vehicle out = Some (yr @ '' '' @ mk @ '' '' @ md))"
    using recalls_by_vin_query [of up vin decoded specs mk md yr] by blast
  show "fst (models_for_make up makeName) =
         [NHTSA_VPIC @ ''/GetModelsForMake/'' @ encodeURIComponent makeName @ ''?format=json'']"
    "\<forall>out. snd (models_for_make up makeName) = Inr out \<longrightarrow> mo_make out = makeName"
    by (auto simp: models_for_make_def Let_def split: sum.splits)
  show "fst (complaints_handler up makeName modelName year) =
         [NHTSA_COMPLAINTS @ ''?make='' @ encodeURIComponent makeName
            @ ''&model='' @ encodeURIComponent modelName
            @ ''&modelYear='' @ numberToString year]"
    "\<forall>out. snd (complaints_handler up makeName modelName year) = Inr out
        \<longrightarrow> co_vehicle out = numberToString year @ '' '' @ makeName @ '' '' @ modelName"
    by (auto simp: complaints_handler_def Let_def split: sum.splits)
qed


theorem case_normalization_witness:
  "fst (recalls_by_vin sampleNhtsa ''1hgcm82633a004352'') =
      [''https://vpic.nhtsa.dot.gov/api/vehicles/decodevin/1HGCM82633A004352?format=json'',
       ''https://api.nhtsa.gov/recalls/recallsByVehicle?make=honda&model=accord&modelYear=2003'']
   \<and> (\<exists>out. snd (recalls_by_vin sampleNhtsa ''1hgcm82633a004352'') = Inr out
         \<and> rv_vehicle out = Some ''2003 HONDA ACCORD'')
   \<and> fst (decode_vin sampleNhtsa ''1hgcm82633a004352'') =
      [''https://vpic.nhtsa.dot.gov/api/vehicles/decodevin/1HGCM82633A004352?format=json'']
   \<and> fst (models_for_make sampleNhtsa ''Toyota'') =
      [''https://vpic.nhtsa.dot.gov/api/vehicles/GetModelsForMake/Toyota?format=json'']
   \<and> fst (complaints_handler sampleNhtsa ''Toyota'' ''Camry'' 2020) =
      [''https://api.nhtsa.gov/complaints/complaintsByVehicle?make=Toyota&model=Camry&modelYear=2020'']"
proof -
  have decode: "fetchJSON (decodevin sampleNhtsa) (decodeUrl (toUpperCase ''1hgcm82633a004352''))
      = Inr accordBody"
    using accord_decode by (simp add: toUpperCase_accord)
  have specs:
    "accordSpecs ''Make'' = Some ''HONDA''"
    "accordSpecs ''Model'' = Some ''ACCORD''"
    "accordSpecs ''Model Year'' = Some ''2003''"
    by (simp_all add: accord_specs)
  note inst = case_normalization [of sampleNhtsa "''1hgcm82633a004352''"
      "[''1hgcm82633a004352'']" accordBody accordSpecs "''HONDA''" "''ACCORD''" "''2003''"
      "''Toyota''" "''Camry''" 2020]
  have lower: "encodeURIComponent (toLowerCase ''HONDA'') = ''honda''"
    "encodeURIComponent (toLowerCase ''ACCORD'') = ''accord''"
    by (simp_all add: toLowerCase_def toLowerCaseChar_def lowerLetters_def upperLetters_def
        encodeURIComponent_def encodeURIChar_def uriUnreserved_def)
  have enc: "encodeURIComponent ''Toyota'' = ''Toyota''" "encodeURIComponent ''Camry'' = ''Camry''"
    by (simp_all add: lowerLetters_def upperLetters_def
        encodeURIComponent_def encodeURIChar_def uriUnreserved_def)
  have year: "numberToString 2020 = ''2020''"
    by (simp add: numberToString_def)
  have a: "fst (decode_vin sampleNhtsa ''1hgcm82633a004352'') =
      [''https://vpic.nhtsa.dot.gov/api/vehicles/decodevin/1HGCM82633A004352?format=json'']"
    using inst [THEN conjunct1, THEN conjunct1]
    by (simp add: toUpperCase_accord NHTSA_VPIC_def)
  have returned: "\<exists>out. snd (recalls_by_vin sampleNhtsa ''1hgcm82633a004352'') = Inr out"
    using recalls_by_vin_found [OF decode accord_clean specs accord_recalls] by simp
  have b: "fst (recalls_by_vin sampleNhtsa ''1hgcm82633a004352'') =
      [''https://vpic.nhtsa.dot.gov/api/vehicles/decodevin/1HGCM82633A004352?format=json'',
       ''https://api.nhtsa.gov/recalls/recallsByVehicle?make=honda&model=accord&modelYear=2003'']
    \<and> (\<exists>out. snd (recalls_by_vin sampleNhtsa ''1hgcm82633a004352'') = Inr out
         \<and> rv_vehicle out = Some ''2003 HONDA ACCORD'')"
    using inst [THEN conjunct2, THEN conjunct2, THEN conjunct2, THEN conjunct1] decode
      accord_clean specs
      returned
    by (auto simp: toUpperCase_accord lower NHTSA_VPIC_def)
  have c: "fst (models_for_make sampleNhtsa ''Toyota'') =
      [''https://vpic.nhtsa.dot.gov/api/vehicles/GetModelsForMake/Toyota?format=json'']"
    using inst [THEN conjunct2, THEN conjunct2, THEN conjunct2, THEN conjunct2, THEN conjunct1]
    by (simp add: enc NHTSA_VPIC_def)
  have d: "fst (complaints_handler sampleNhtsa ''Toyota'' ''Camry'' 2020) =
      [''https://api.nhtsa.gov/complaints/complaintsByVehicle?make=Toyota&model=Camry&modelYear=2020'']"
    using inst [THEN conjunct2, THEN conjunct2, THEN conjunct2, THEN conjunct2, THEN conjunct2]
    by (simp add: enc year NHTSA_COMPLAINTS_def)
  from a b c d show ?thesis by blast
qed

end
